theory Spec2Isabelle
  imports Complex_Main "HOL-Library.Sublist"
begin

section \<open>Values of the JavaScript program\<close>

text \<open>
  A JavaScript Number that the program reads, stores or rounds (a coordinate, a radius, a
  cost) is the real it denotes, and the product of a cost and a multiplier is read as the
  exact product.  The numbers that the distance computation produces are treated apart, in
  the section on the distance.  A tag set (the
  \<open>tags\<close> object of an OpenStreetMap element) is an association list of string keys
  and string values in insertion order, which is the order a \<open>for (key in tags)\<close> loop
  visits string keys in; a property read \<open>tags.k\<close> is a lookup, \<open>None\<close> standing for
  \<open>undefined\<close>.  The keys of an object are distinct.
\<close>

type_synonym number = real

type_synonym tags = "(string \<times> string) list"

definition tag :: "tags \<Rightarrow> string \<Rightarrow> string option" where
  "tag ts k = map_of ts k"

text \<open>\<open>tags.k === 'v'\<close>: strict equality with a string literal.\<close>

definition tag_is :: "tags \<Rightarrow> string \<Rightarrow> string \<Rightarrow> bool" where
  "tag_is ts k v = (tag ts k = Some v)"

text \<open>Truthiness of a property that is a string or undefined: present and not empty.\<close>

definition truthy :: "string option \<Rightarrow> bool" where
  "truthy v = (case v of None \<Rightarrow> False | Some s \<Rightarrow> s \<noteq> [])"

text \<open>\<open>a || b\<close> where \<open>a\<close> is a string or undefined and \<open>b\<close> a string.\<close>

definition or_else :: "string option \<Rightarrow> string \<Rightarrow> string" where
  "or_else a b = (case a of None \<Rightarrow> b | Some s \<Rightarrow> if s \<noteq> [] then s else b)"

text \<open>
  The string methods the program calls.  \<open>startsWith\<close> is \<^const>\<open>prefix\<close>.
  \<open>s.replace(pat, rep)\<close> with a string pattern replaces the first occurrence of the
  pattern only.  \<open>includes\<close> on a string is the substring test.  The first letter of a
  healthcare value is put in upper case as an ASCII letter; every other character is left
  as it is.
\<close>

fun replace_first :: "string \<Rightarrow> string \<Rightarrow> string \<Rightarrow> string" where
  "replace_first pat rep [] = (if pat = [] then rep else [])"
| "replace_first pat rep (c # cs) =
     (if prefix pat (c # cs) then rep @ drop (length pat) (c # cs)
      else c # replace_first pat rep cs)"

fun includes_str :: "string \<Rightarrow> string \<Rightarrow> bool" where
  "includes_str [] sub = (sub = [])"
| "includes_str (c # cs) sub = (prefix sub (c # cs) \<or> includes_str cs sub)"

definition toUpperCase_char :: "char \<Rightarrow> char" where
  "toUpperCase_char c =
     (case map_of (zip ''abcdefghijklmnopqrstuvwxyz'' ''ABCDEFGHIJKLMNOPQRSTUVWXYZ'') c of
        None \<Rightarrow> c | Some u \<Rightarrow> u)"

text \<open>\<open>s.charAt(0).toUpperCase() + s.slice(1)\<close>.\<close>

definition capitalize :: "string \<Rightarrow> string" where
  "capitalize s = (case s of [] \<Rightarrow> [] | c # cs \<Rightarrow> toUpperCase_char c # cs)"

text \<open>\<open>parts.join(sep)\<close>.\<close>

fun join :: "string \<Rightarrow> string list \<Rightarrow> string" where
  "join sep [] = []"
| "join sep [p] = p"
| "join sep (p # q # ps) = p @ sep @ join sep (q # ps)"

text \<open>\<open>Math.round\<close>: the integer nearest to the argument, a half rounded upwards.\<close>

definition Math_round :: "number \<Rightarrow> number" where
  "Math_round x = of_int \<lfloor>x + 1 / 2\<rfloor>"

section \<open>map-integration.js: distance\<close>

record coords =
  lat :: number
  lon :: number

text \<open>
  The distance is computed in the double arithmetic of the engine that runs the program,
  through \<open>Math.sin\<close>, \<open>Math.cos\<close>, \<open>Math.sqrt\<close> and \<open>Math.atan2\<close>.  A result of
  that arithmetic is \<open>NaN\<close>, an infinity, or a finite number, given by the real it
  denotes (the sign of a zero plays no part in the computation).  What the operations
  return (their rounding, where they overflow or yield \<open>NaN\<close>) is not fixed here: the
  engine is a parameter, the record of its operations.  The record also holds
  \<open>String.prototype.toLowerCase\<close>, and the order in which \<open>Array.prototype.sort\<close> leaves a
  list whose comparator is not consistent (see \<open>sort_by_distance\<close> below).
\<close>

datatype js_number = NaN | Num real | Infinity | Minus_Infinity

record engine =
  js_add :: "js_number \<Rightarrow> js_number \<Rightarrow> js_number"
  js_sub :: "js_number \<Rightarrow> js_number \<Rightarrow> js_number"
  js_mul :: "js_number \<Rightarrow> js_number \<Rightarrow> js_number"
  js_div :: "js_number \<Rightarrow> js_number \<Rightarrow> js_number"
  Math_sin :: "js_number \<Rightarrow> js_number"
  Math_cos :: "js_number \<Rightarrow> js_number"
  Math_sqrt :: "js_number \<Rightarrow> js_number"
  Math_atan2 :: "js_number \<Rightarrow> js_number \<Rightarrow> js_number"
  Math_PI :: js_number
  toLowerCase :: "string \<Rightarrow> string"
  sort_rank :: "js_number list \<Rightarrow> nat \<Rightarrow> nat"

text \<open>\<open>toRad(value)\<close>: \<open>value * Math.PI / 180\<close>.\<close>

definition toRad :: "engine \<Rightarrow> js_number \<Rightarrow> js_number" where
  "toRad eng v = js_div eng (js_mul eng v (Math_PI eng)) (Num 180)"

text \<open>
  \<open>calculateDistance(coords1, coords2)\<close>: the haversine formula, operation by operation
  in the order in which the expression is evaluated.
\<close>

definition calculateDistance :: "engine \<Rightarrow> coords \<Rightarrow> coords \<Rightarrow> js_number" where
  "calculateDistance eng coords1 coords2 =
     (let R = Num 6371;
          dLat = toRad eng (js_sub eng (Num (lat coords2)) (Num (lat coords1)));
          dLon = toRad eng (js_sub eng (Num (lon coords2)) (Num (lon coords1)));
          a = js_add eng
                (js_mul eng (Math_sin eng (js_div eng dLat (Num 2)))
                   (Math_sin eng (js_div eng dLat (Num 2))))
                (js_mul eng
                   (js_mul eng
                      (js_mul eng (Math_cos eng (toRad eng (Num (lat coords1))))
                         (Math_cos eng (toRad eng (Num (lat coords2)))))
                      (Math_sin eng (js_div eng dLon (Num 2))))
                   (Math_sin eng (js_div eng dLon (Num 2))));
          c = js_mul eng (Num 2)
                (Math_atan2 eng (Math_sqrt eng a) (Math_sqrt eng (js_sub eng (Num 1) a)))
      in js_mul eng R c)"

section \<open>map-integration.js: facility type\<close>

text \<open>
  \<open>getFacilityType(tags)\<close>: a chain of \<open>if (...) return ...\<close> statements, the first
  test that holds decides.
\<close>

definition getFacilityType :: "tags \<Rightarrow> string" where
  "getFacilityType ts =
     (if tag_is ts ''amenity'' ''hospital'' then ''Hospital''
      else if tag_is ts ''amenity'' ''clinic'' then ''Clinic''
      else if tag_is ts ''amenity'' ''doctors'' then ''Doctor's Office''
      else if tag_is ts ''healthcare'' ''centre'' then ''Health Center''
      else if tag_is ts ''healthcare'' ''clinic'' then ''Clinic''
      else if truthy (tag ts ''healthcare'')
        then ''Healthcare ('' @ the (tag ts ''healthcare'') @ '')''
      else if tag_is ts ''social_facility'' ''healthcare'' then ''Community Health Center''
      else ''Healthcare Facility'')"

text \<open>
  The derivation as the specification words it: an ordered table of rules, each a condition
  on the tag set with its result, inspected from the top; the first rule whose condition
  holds gives the facility type, and the generic type is the default.
\<close>

fun first_match :: "(bool \<times> 'a) list \<Rightarrow> 'a \<Rightarrow> 'a" where
  "first_match [] d = d"
| "first_match ((c, r) # rs) d = (if c then r else first_match rs d)"

definition other_healthcare_value :: "tags \<Rightarrow> string option" where
  "other_healthcare_value ts =
     (case tag ts ''healthcare'' of
        None \<Rightarrow> None
      | Some v \<Rightarrow> if v \<noteq> [] \<and> v \<noteq> ''centre'' \<and> v \<noteq> ''clinic'' then Some v else None)"

definition facilityType_rules :: "tags \<Rightarrow> (bool \<times> string) list" where
  "facilityType_rules ts =
     [(tag ts ''amenity'' = Some ''hospital'', ''Hospital''),
      (tag ts ''amenity'' = Some ''clinic'', ''Clinic''),
      (tag ts ''amenity'' = Some ''doctors'', ''Doctor's Office''),
      (tag ts ''healthcare'' = Some ''centre'', ''Health Center''),
      (tag ts ''healthcare'' = Some ''clinic'', ''Clinic''),
      (other_healthcare_value ts \<noteq> None,
         ''Healthcare ('' @ the (other_healthcare_value ts) @ '')''),
      (tag ts ''social_facility'' = Some ''healthcare'', ''Community Health Center'')]"

definition facilityType_spec :: "tags \<Rightarrow> string" where
  "facilityType_spec ts = first_match (facilityType_rules ts) ''Healthcare Facility''"

text \<open>\<open>getFacilityTypeName(tags)\<close>: the name of a facility that has no name tag.\<close>

definition getFacilityTypeName :: "tags \<Rightarrow> string" where
  "getFacilityTypeName ts =
     (let type = getFacilityType ts
      in if truthy (tag ts ''operator'') then the (tag ts ''operator'') @ '' '' @ type
         else ''Unnamed '' @ type)"

text \<open>\<open>formatAddress(tags)\<close>.\<close>

definition formatAddress :: "tags \<Rightarrow> string" where
  "formatAddress ts =
     (let street =
            (if truthy (tag ts ''addr:housenumber'') \<and> truthy (tag ts ''addr:street'')
               then [the (tag ts ''addr:housenumber'') @ '' '' @ the (tag ts ''addr:street'')]
             else if truthy (tag ts ''addr:street'') then [the (tag ts ''addr:street'')]
             else []);
          city =
            (if truthy (tag ts ''addr:city'')
               then [the (tag ts ''addr:city'')
                     @ (if truthy (tag ts ''addr:postcode'')
                          then '', '' @ the (tag ts ''addr:postcode'') else [])
                     @ (if truthy (tag ts ''addr:state'')
                          then '', '' @ the (tag ts ''addr:state'') else [])]
             else []);
          parts = street @ city
      in if length parts > 0 then join '', '' parts else ''Address not available'')"

section \<open>map-integration.js: specialties and payment information\<close>

text \<open>
  \<open>extractSpecialties(tags)\<close>.  The loop over the keys tests
  \<open>key.startsWith('healthcare:speciality')\<close> and pushes
  \<open>key.replace('healthcare:speciality:', '')\<close>; the seven tests on the healthcare tag
  follow, and an empty list is replaced by the default of the category.
\<close>

definition speciality_keys :: "tags \<Rightarrow> string list" where
  "speciality_keys ts =
     map (\<lambda>(k, v). replace_first ''healthcare:speciality:'' [] k)
       (filter (\<lambda>(k, v). prefix ''healthcare:speciality'' k \<and> v = ''yes'') ts)"

definition healthcare_services :: "tags \<Rightarrow> string list" where
  "healthcare_services ts =
     (if tag_is ts ''healthcare'' ''dentist'' then [''Dentistry''] else [])
     @ (if tag_is ts ''healthcare'' ''pharmacy'' then [''Pharmacy''] else [])
     @ (if tag_is ts ''healthcare'' ''optometrist'' then [''Optometry''] else [])
     @ (if tag_is ts ''healthcare'' ''rehabilitation'' then [''Rehabilitation''] else [])
     @ (if tag_is ts ''healthcare'' ''alternative'' then [''Alternative Medicine''] else [])
     @ (if tag_is ts ''healthcare'' ''laboratory'' then [''Medical Laboratory''] else [])
     @ (if tag_is ts ''healthcare'' ''psychology'' then [''Psychology''] else [])"

definition extractSpecialties :: "tags \<Rightarrow> string list" where
  "extractSpecialties ts =
     (let specialties = speciality_keys ts @ healthcare_services ts
      in if length specialties = 0
         then (if tag_is ts ''amenity'' ''hospital'' then [''General Hospital Services'']
               else if tag_is ts ''amenity'' ''clinic'' then [''General Clinic Services'']
               else if truthy (tag ts ''healthcare'')
                 then [capitalize (the (tag ts ''healthcare'')) @ '' Services'']
               else [''General Healthcare''])
         else specialties)"

text \<open>\<open>extractPaymentInfo(tags)\<close>: three statuses that start as Unknown, and the methods.\<close>

datatype tri_state = Yes | No | Unknown

record payment_info =
  accepts_insurance :: tri_state
  payment_methods :: "string list"
  sliding_scale :: tri_state
  free_care :: tri_state

definition extractPaymentInfo :: "tags \<Rightarrow> payment_info" where
  "extractPaymentInfo ts =
     \<lparr>accepts_insurance =
        (if tag_is ts ''payment:insurance'' ''yes'' then Yes
         else if tag_is ts ''payment:insurance'' ''no'' then No else Unknown),
      payment_methods =
        map (\<lambda>(k, v). replace_first ''payment:'' [] k)
          (filter (\<lambda>(k, v). prefix ''payment:'' k \<and> v = ''yes''
                     \<and> k \<notin> set [''payment:sliding_scale'', ''payment:insurance'']) ts),
      sliding_scale =
        (if tag_is ts ''payment:sliding_scale'' ''yes'' then Yes
         else if tag_is ts ''payment:sliding_scale'' ''no'' then No else Unknown),
      free_care =
        (if tag_is ts ''fee'' ''no'' \<or> tag_is ts ''fee'' ''none'' then Yes
         else if tag_is ts ''fee'' ''yes'' then No else Unknown)\<rparr>"

section \<open>map-integration.js: processing a result batch\<close>

text \<open>
  An element of an Overpass response: a node with its own position, a way with the ids of
  the nodes it references, or a relation.  The tags and the node list may be missing.
\<close>

datatype element_type = node | way | relation

datatype element =
    Node nat number number "tags option"
  | Way nat "nat list option" "tags option"
  | Relation nat "tags option"

fun el_id :: "element \<Rightarrow> nat" where
  "el_id (Node i la lo ts) = i"
| "el_id (Way i ns ts) = i"
| "el_id (Relation i ts) = i"

fun el_type :: "element \<Rightarrow> element_type" where
  "el_type (Node i la lo ts) = node"
| "el_type (Way i ns ts) = way"
| "el_type (Relation i ts) = relation"

fun el_tags :: "element \<Rightarrow> tags option" where
  "el_tags (Node i la lo ts) = ts"
| "el_tags (Way i ns ts) = ts"
| "el_tags (Relation i ts) = ts"

record facility =
  f_id :: nat
  f_type :: element_type
  f_name :: string
  f_lat :: number
  f_lon :: number
  f_tags :: tags
  f_distance :: js_number
  f_address :: string
  f_facilityType :: string
  f_phone :: string
  f_website :: string
  f_opening_hours :: string

text \<open>
  The first pass of \<open>processOverpassResults\<close>: the table \<open>nodes\<close>, filled in the order
  of the batch, a later node of the same id replacing an earlier one.  (The table of ways
  that the same pass fills is never read.)
\<close>

definition collect_nodes :: "element list \<Rightarrow> (nat \<rightharpoonup> element)" where
  "collect_nodes els =
     foldl (\<lambda>nodes e. if el_type e = node then nodes(el_id e \<mapsto> e) else nodes) Map.empty els"

text \<open>
  The coordinates of an element in the second pass: a node has its own, a way with a
  non-empty node list has those of its first node when the table holds it, and \<open>coords\<close>
  stays undefined otherwise.
\<close>

fun resolve_coords :: "(nat \<rightharpoonup> element) \<Rightarrow> element \<Rightarrow> coords option" where
  "resolve_coords nodes (Node i la lo ts) = Some \<lparr>lat = la, lon = lo\<rparr>"
| "resolve_coords nodes (Way i (Some (n # ns)) ts) =
     (case nodes n of
        Some (Node j la lo ts') \<Rightarrow> Some \<lparr>lat = la, lon = lo\<rparr>
      | _ \<Rightarrow> None)"
| "resolve_coords nodes e = None"

definition make_facility :: "engine \<Rightarrow> coords \<Rightarrow> element \<Rightarrow> tags \<Rightarrow> coords \<Rightarrow> facility" where
  "make_facility eng searchCoords e ts c =
     \<lparr>f_id = el_id e,
      f_type = el_type e,
      f_name = or_else (tag ts ''name'') (getFacilityTypeName ts),
      f_lat = lat c,
      f_lon = lon c,
      f_tags = ts,
      f_distance = calculateDistance eng searchCoords c,
      f_address = formatAddress ts,
      f_facilityType = getFacilityType ts,
      f_phone = or_else (tag ts ''phone'') (or_else (tag ts ''contact:phone'') ''Not available''),
      f_website = or_else (tag ts ''website'') (or_else (tag ts ''contact:website'') []),
      f_opening_hours = or_else (tag ts ''opening_hours'') ''Not specified''\<rparr>"

text \<open>
  The body of the second loop for one element: \<open>None\<close> when nothing is pushed (a node
  without tags returns at once; an element that is neither a tagged node nor a tagged way,
  or whose coordinates do not resolve, falls through), the facility pushed otherwise.
\<close>

definition process_element ::
    "engine \<Rightarrow> (nat \<rightharpoonup> element) \<Rightarrow> coords \<Rightarrow> element \<Rightarrow> facility option" where
  "process_element eng nodes searchCoords e =
     (if el_type e = node \<and> el_tags e = None then None
      else if (el_type e = node \<or> el_type e = way) \<and> el_tags e \<noteq> None
        then (case resolve_coords nodes e of
                Some c \<Rightarrow> Some (make_facility eng searchCoords e (the (el_tags e)) c)
              | None \<Rightarrow> None)
      else None)"

text \<open>
  \<open>facilities.sort((a, b) => a.distance - b.distance)\<close>.  The difference of two finite
  numbers is negative, zero or positive as their exact difference is, so where every
  distance is a finite number the comparator is consistent and the result is the stable
  sort, ascending in the distance.  A difference with \<open>NaN\<close> is \<open>NaN\<close>, which the sort
  reads as zero; the comparator is then not consistent and the language leaves the order
  to the engine (the model leaves it to the engine whenever a distance is not finite).
  The result is still a rearrangement of the list that depends on the comparisons only: the
  engine's \<open>sort_rank\<close> ranks the positions of the list, given its distances.
\<close>

definition is_finite :: "js_number \<Rightarrow> bool" where
  "is_finite x = (case x of Num r \<Rightarrow> True | _ \<Rightarrow> False)"

definition num_value :: "js_number \<Rightarrow> real" where
  "num_value x = (case x of Num r \<Rightarrow> r | _ \<Rightarrow> 0)"

definition sort_by_distance :: "engine \<Rightarrow> facility list \<Rightarrow> facility list" where
  "sort_by_distance eng fs =
     (if \<not> list_all is_finite (map f_distance fs)
        then map snd
               (sort_key fst
                  (zip (map (sort_rank eng (map f_distance fs)) [0..<length fs]) fs))
      else sort_key (\<lambda>f. num_value (f_distance f)) fs)"

definition pushed_facilities :: "engine \<Rightarrow> element list \<Rightarrow> coords \<Rightarrow> facility list" where
  "pushed_facilities eng els searchCoords =
     List.map_filter (process_element eng (collect_nodes els) searchCoords) els"

definition processOverpassResults :: "engine \<Rightarrow> element list \<Rightarrow> coords \<Rightarrow> facility list" where
  "processOverpassResults eng els searchCoords =
     sort_by_distance eng (pushed_facilities eng els searchCoords)"

section \<open>map-integration.js: the search endpoints\<close>

text \<open>
  The two network calls are the environment of a search: each either rejects (the message of
  the error) or resolves to the parsed JSON.  The address and the radius only shape the
  requests, so the functions below take the responses in their place.  A thrown or rejected
  error is the left value of a sum, carrying its message.
\<close>

datatype 'a fetched = Rejected string | Resolved 'a

record geo_match =
  m_lat :: number
  m_lon :: number
  m_display_name :: string

record geocoded = coords +
  displayName :: string

text \<open>
  \<open>geocodeAddress(address)\<close>: the first match of the geocoder, or the error
  \<open>Location not found\<close> when there is none; an error of the call is thrown again.
\<close>

definition geocodeAddress :: "geo_match list fetched \<Rightarrow> string + geocoded" where
  "geocodeAddress r =
     (case r of
        Rejected msg \<Rightarrow> Inl msg
      | Resolved data \<Rightarrow>
          (case data of
             m # ms \<Rightarrow> Inr \<lparr>lat = m_lat m, lon = m_lon m, displayName = m_display_name m\<rparr>
           | [] \<Rightarrow> Inl ''Location not found''))"

definition searchHealthcareFacilities ::
    "engine \<Rightarrow> element list fetched \<Rightarrow> geocoded \<Rightarrow> string + facility list" where
  "searchHealthcareFacilities eng r cs =
     (case r of
        Rejected msg \<Rightarrow> Inl msg
      | Resolved els \<Rightarrow> Inr (processOverpassResults eng els (coords.truncate cs)))"

record search_request =
  location :: string
  radius :: "number option"
  careType :: "string option"
  facilityType :: "string option"
  paymentOptions :: "string list option"

text \<open>
  A response: the HTTP status and the JSON body.  A body is an error body (the
  \<open>success\<close> field when the body has one, and the \<open>error\<close> message) or a result body
  (the \<open>success\<close> field when present, location, search coordinates, radius, totalProviders
  and providers).
\<close>

datatype 'p body =
    Error_body "bool option" string
  | Results_body "bool option" string coords number nat "'p list"

record 'p response =
  status :: nat
  body :: "'p body"

definition careType_filter :: "engine \<Rightarrow> string \<Rightarrow> facility \<Rightarrow> bool" where
  "careType_filter eng ct f =
     includes_str (toLowerCase eng (f_facilityType f)) (toLowerCase eng ct)"

definition payment_filter :: "string list \<Rightarrow> facility \<Rightarrow> bool" where
  "payment_filter po provider =
     (if ''Sliding Scale'' \<in> set po \<and> tag_is (f_tags provider) ''payment:sliding_scale'' ''yes''
        then True
      else if ''Free'' \<in> set po \<and> tag_is (f_tags provider) ''fee'' ''no'' then True
      else False)"

text \<open>The handler of \<open>POST /search-providers\<close>.\<close>

definition search_providers ::
    "engine \<Rightarrow> search_request \<Rightarrow> geo_match list fetched \<Rightarrow> element list fetched
      \<Rightarrow> facility response" where
  "search_providers eng req geo overpass =
     (let r = (case radius req of None \<Rightarrow> 10 | Some v \<Rightarrow> v)
      in case geocodeAddress geo of
           Inl msg \<Rightarrow>
             \<lparr>status = 500,
              body = Error_body None (or_else (Some msg) ''An error occurred during search'')\<rparr>
         | Inr coordinates \<Rightarrow>
             (case searchHealthcareFacilities eng overpass coordinates of
                Inl msg \<Rightarrow>
                  \<lparr>status = 500,
                   body = Error_body None (or_else (Some msg) ''An error occurred during search'')\<rparr>
              | Inr found \<Rightarrow>
                  (let facilities1 =
                         (if truthy (careType req)
                            then filter (careType_filter eng (the (careType req))) found
                          else found);
                       facilities2 =
                         (case paymentOptions req of
                            None \<Rightarrow> facilities1
                          | Some po \<Rightarrow>
                              if length po > 0 then filter (payment_filter po) facilities1
                              else facilities1)
                   in \<lparr>status = 200,
                       body = Results_body None (displayName coordinates)
                                (coords.truncate coordinates) r (length facilities2) facilities2\<rparr>)))"

text \<open>The handler of \<open>POST /api/facilities/search\<close> of the same server.\<close>

definition api_facilities_search ::
    "engine \<Rightarrow> search_request \<Rightarrow> geo_match list fetched \<Rightarrow> element list fetched
      \<Rightarrow> facility response" where
  "api_facilities_search eng req geo overpass =
     (let r = (case radius req of None \<Rightarrow> 10 | Some v \<Rightarrow> v)
      in case geocodeAddress geo of
           Inl msg \<Rightarrow>
             \<lparr>status = 500,
              body = Error_body None (or_else (Some msg) ''An error occurred during search'')\<rparr>
         | Inr coordinates \<Rightarrow>
             (case searchHealthcareFacilities eng overpass coordinates of
                Inl msg \<Rightarrow>
                  \<lparr>status = 500,
                   body = Error_body None (or_else (Some msg) ''An error occurred during search'')\<rparr>
              | Inr found \<Rightarrow>
                  (let providers =
                         (if truthy (careType req)
                            then filter (careType_filter eng (the (careType req))) found
                          else found)
                   in \<lparr>status = 200,
                       body = Results_body None (displayName coordinates)
                                (coords.truncate coordinates) r (length providers) providers\<rparr>)))"

section \<open>The facility model and controllers/facilityController.js\<close>

text \<open>
  A stored facility as \<open>toObject()\<close> gives it, with the fields of the schema that the
  search reads or returns (the address, the hours, the ratings and the accessibility flags
  are carried through unchanged by the program and are left out here).  The \<open>contact\<close>
  object is missing from a document that has none of its fields; the payment options and
  the location are always there, by the defaults of the schema.
\<close>

record payment_flags =
  slidingScale :: bool
  freeCare :: bool
  acceptsInsurance :: bool
  acceptsMedicaid :: bool
  acceptsMedicare :: bool
  financialAssistance :: bool
  charityCare :: bool

record contact =
  phone :: "string option"
  email :: "string option"
  website :: "string option"

record stored_facility =
  s_id :: nat
  s_name :: string
  s_facilityType :: string
  s_coordinates :: "number \<times> number"
  s_contact :: "contact option"
  s_services :: "string list"
  s_costLevel :: nat
  s_paymentOptions :: payment_flags
  s_active :: bool

record public_payment_flags =
  pub_slidingScale :: bool
  pub_freeCare :: bool
  pub_acceptsInsurance :: bool
  pub_acceptsMedicaid :: bool
  pub_financialAssistance :: bool
  pub_charityCare :: bool

record public_facility =
  pub_id :: nat
  pub_name :: string
  pub_facilityType :: string
  pub_lat :: number
  pub_lon :: number
  pub_phone :: "string option"
  pub_website :: "string option"
  pub_services :: "string list"
  pub_costLevel :: nat
  pub_paymentOptions :: public_payment_flags

text \<open>
  \<open>toPublicJSON\<close>: the coordinates are stored as longitude, latitude.  Reading
  \<open>facility.contact.phone\<close> throws a TypeError when the document has no contact object
  (the messages of TypeErrors are given in the wording of V8).
\<close>

definition toPublicJSON :: "stored_facility \<Rightarrow> string + public_facility" where
  "toPublicJSON f =
     (case s_contact f of
        None \<Rightarrow> Inl ''Cannot read properties of undefined (reading 'phone')''
      | Some c \<Rightarrow>
          Inr \<lparr>pub_id = s_id f,
               pub_name = s_name f,
               pub_facilityType = s_facilityType f,
               pub_lat = snd (s_coordinates f),
               pub_lon = fst (s_coordinates f),
               pub_phone = phone c,
               pub_website = website c,
               pub_services = s_services f,
               pub_costLevel = s_costLevel f,
               pub_paymentOptions =
                 \<lparr>pub_slidingScale = slidingScale (s_paymentOptions f),
                  pub_freeCare = freeCare (s_paymentOptions f),
                  pub_acceptsInsurance = acceptsInsurance (s_paymentOptions f),
                  pub_acceptsMedicaid = acceptsMedicaid (s_paymentOptions f),
                  pub_financialAssistance = financialAssistance (s_paymentOptions f),
                  pub_charityCare = charityCare (s_paymentOptions f)\<rparr>\<rparr>)"

text \<open>\<open>xs.map(f)\<close> for a function that may throw: the first throw ends the map.\<close>

fun map_throwing :: "('a \<Rightarrow> string + 'b) \<Rightarrow> 'a list \<Rightarrow> string + 'b list" where
  "map_throwing f [] = Inr []"
| "map_throwing f (x # xs) =
     (case f x of
        Inl msg \<Rightarrow> Inl msg
      | Inr y \<Rightarrow> (case map_throwing f xs of Inl msg \<Rightarrow> Inl msg | Inr ys \<Rightarrow> Inr (y # ys)))"

text \<open>
  The query that \<open>searchFacilities\<close> builds: the point and the largest distance in metres
  of \<open>$near\<close>, the active flag, the facility type when given, and under \<open>$or\<close> the
  paths of the payment flags asked for, when there is at least one.
\<close>

record query =
  near_point :: "number \<times> number"
  maxDistance :: number
  active :: bool
  q_facilityType :: "string option"
  or_conditions :: "string list option"

definition payment_conditions :: "string list \<Rightarrow> string list" where
  "payment_conditions po =
     (if ''slidingScale'' \<in> set po then [''paymentOptions.slidingScale''] else [])
     @ (if ''freeCare'' \<in> set po then [''paymentOptions.freeCare''] else [])
     @ (if ''insurance'' \<in> set po then [''paymentOptions.acceptsInsurance''] else [])
     @ (if ''medicaid'' \<in> set po then [''paymentOptions.acceptsMedicaid''] else [])
     @ (if ''medicare'' \<in> set po then [''paymentOptions.acceptsMedicare''] else [])
     @ (if ''financialAssistance'' \<in> set po then [''paymentOptions.financialAssistance''] else [])
     @ (if ''charityCare'' \<in> set po then [''paymentOptions.charityCare''] else [])"

definition build_query :: "search_request \<Rightarrow> geocoded \<Rightarrow> query" where
  "build_query req coordinates =
     (let r = (case radius req of None \<Rightarrow> 10 | Some v \<Rightarrow> v);
          po = (case paymentOptions req of None \<Rightarrow> [] | Some l \<Rightarrow> l)
      in \<lparr>near_point = (lon coordinates, lat coordinates),
          maxDistance = r * 1609.34,
          active = True,
          q_facilityType = (if truthy (facilityType req) then facilityType req else None),
          or_conditions =
            (if length po > 0 \<and> length (payment_conditions po) > 0
               then Some (payment_conditions po) else None)\<rparr>)"

text \<open>
  The controller binds the name \<open>geocodeAddress\<close> by
  \<open>const { geocodeAddress } = require('../routes/facilities')\<close>.  That module exports its
  router and nothing else, so the name is bound to \<open>undefined\<close>, and a call of it throws
  the TypeError \<open>geocodeAddress is not a function\<close>.  A binding is \<open>None\<close> for
  \<open>undefined\<close> and a function otherwise.
\<close>

type_synonym geocoder = "geo_match list fetched \<Rightarrow> string + geocoded"

definition routes_facilities_geocodeAddress :: "geocoder option" where
  "routes_facilities_geocodeAddress = None"

definition call_geocodeAddress :: "geocoder option \<Rightarrow> geo_match list fetched \<Rightarrow> string + geocoded" where
  "call_geocodeAddress binding geo =
     (case binding of
        None \<Rightarrow> Inl ''geocodeAddress is not a function''
      | Some g \<Rightarrow> g geo)"

text \<open>
  The body of \<open>searchFacilities\<close>, for a binding of \<open>geocodeAddress\<close>.  The store is
  outside the program: \<open>store q\<close> is what \<open>Facility.find(q)\<close> yields without a limit, or
  the rejection of the call, and \<open>.limit(50)\<close> keeps the first fifty documents.
  \<open>user\<close> is \<open>None\<close> for a request without a logged-in user and otherwise the outcome of
  saving the search history.  Every error thrown in the \<open>try\<close> block is answered by the
  \<open>catch\<close> block.
\<close>

definition searchFacilities_body ::
    "geocoder option \<Rightarrow> search_request \<Rightarrow> unit fetched option \<Rightarrow> geo_match list fetched
      \<Rightarrow> (query \<Rightarrow> stored_facility list fetched) \<Rightarrow> public_facility response" where
  "searchFacilities_body binding req user geo store =
     (let r = (case radius req of None \<Rightarrow> 10 | Some v \<Rightarrow> v)
      in case call_geocodeAddress binding geo of
           Inl msg \<Rightarrow>
             \<lparr>status = 500, body = Error_body (Some False) (or_else (Some msg) ''Server Error'')\<rparr>
         | Inr coordinates \<Rightarrow>
             (case store (build_query req coordinates) of
                Rejected msg \<Rightarrow>
                  \<lparr>status = 500,
                   body = Error_body (Some False) (or_else (Some msg) ''Server Error'')\<rparr>
              | Resolved found \<Rightarrow>
                  (let facilities = take 50 found
                   in case user of
                        Some (Rejected msg) \<Rightarrow>
                          \<lparr>status = 500,
                           body = Error_body (Some False) (or_else (Some msg) ''Server Error'')\<rparr>
                      | _ \<Rightarrow>
                          (case map_throwing toPublicJSON facilities of
                             Inl msg \<Rightarrow>
                               \<lparr>status = 500,
                                body = Error_body (Some False)
                                         (or_else (Some msg) ''Server Error'')\<rparr>
                           | Inr providers \<Rightarrow>
                               \<lparr>status = 200,
                                body = Results_body (Some True) (displayName coordinates)
                                         (coords.truncate coordinates) r (length facilities)
                                         providers\<rparr>))))"

text \<open>\<open>searchFacilities\<close> as the module has it: the body under the binding of the import.\<close>

definition searchFacilities ::
    "search_request \<Rightarrow> unit fetched option \<Rightarrow> geo_match list fetched
      \<Rightarrow> (query \<Rightarrow> stored_facility list fetched) \<Rightarrow> public_facility response" where
  "searchFacilities req user geo store =
     searchFacilities_body routes_facilities_geocodeAddress req user geo store"

section \<open>cost-estimation.js\<close>

text \<open>
  A provider of a cost comparison, with the three costs of the procedure, and the figures
  that \<open>displayCostResults\<close> shows for it: the adjusted costs and the label of the discount
  badge (the empty string when there is no badge).
\<close>

record cost_provider =
  facilityName :: string
  averageCost :: number
  minCost :: number
  maxCost :: number

record cost_row =
  adjustedCost :: number
  adjustedMin :: number
  adjustedMax :: number
  discount :: string

definition adjust_costs :: "string \<Rightarrow> cost_provider \<Rightarrow> cost_row" where
  "adjust_costs insuranceType provider =
     (let unadjusted =
            \<lparr>adjustedCost = averageCost provider, adjustedMin = minCost provider,
             adjustedMax = maxCost provider, discount = []\<rparr>
      in if insuranceType \<noteq> ''none''
         then (if insuranceType = ''private''
                 then \<lparr>adjustedCost = Math_round (averageCost provider * 0.6),
                       adjustedMin = Math_round (minCost provider * 0.6),
                       adjustedMax = Math_round (maxCost provider * 0.6),
                       discount = ''40% Insurance Discount''\<rparr>
               else if insuranceType = ''medicare''
                 then \<lparr>adjustedCost = Math_round (averageCost provider * 0.45),
                       adjustedMin = Math_round (minCost provider * 0.45),
                       adjustedMax = Math_round (maxCost provider * 0.45),
                       discount = ''55% Medicare Rate''\<rparr>
               else if insuranceType = ''medicaid''
                 then \<lparr>adjustedCost = Math_round (averageCost provider * 0.4),
                       adjustedMin = Math_round (minCost provider * 0.4),
                       adjustedMax = Math_round (maxCost provider * 0.4),
                       discount = ''60% Medicaid Rate''\<rparr>
               else unadjusted)
         else unadjusted)"

text \<open>The rows of the table: the providers sorted by average cost, each adjusted.\<close>

definition displayCostResults :: "cost_provider list \<Rightarrow> string \<Rightarrow> cost_row list" where
  "displayCostResults providers insuranceType =
     map (adjust_costs insuranceType) (sort_key averageCost providers)"

text \<open>The multipliers of the insurance categories, as the specification lists them.\<close>

definition multiplier :: "string \<Rightarrow> number option" where
  "multiplier c =
     map_of [(''none'', 1), (''private'', 0.60), (''medicare'', 0.45), (''medicaid'', 0.40)] c"

section \<open>Notions used to state the properties\<close>

text \<open>The providers and the count that a response carries; an error body has none.\<close>

definition providers_of :: "'p response \<Rightarrow> 'p list" where
  "providers_of r = (case body r of Results_body s l c rad n ps \<Rightarrow> ps | Error_body s m \<Rightarrow> [])"

definition total_of :: "'p response \<Rightarrow> nat" where
  "total_of r = (case body r of Results_body s l c rad n ps \<Rightarrow> n | Error_body s m \<Rightarrow> 0)"

text \<open>
  A selected payment option is satisfied by a facility, in the words of the specification:
  only an explicit affirmative tag value counts.
\<close>

definition option_satisfied :: "string \<Rightarrow> facility \<Rightarrow> bool" where
  "option_satisfied opt f =
     ((opt = ''Sliding Scale'' \<and> tag (f_tags f) ''payment:sliding_scale'' = Some ''yes'')
      \<or> (opt = ''Free'' \<and> tag (f_tags f) ''fee'' = Some ''no''))"

text \<open>
  The specialties as the specification words them: the keys with the prefix
  \<open>healthcare:speciality:\<close> and the value \<open>yes\<close>, the prefix stripped, then the fixed
  additions, and the default of the category when that list is empty.
\<close>

definition specialties_spec :: "tags \<Rightarrow> string list" where
  "specialties_spec ts =
     (let collected =
            map (\<lambda>(k, v). drop (length ''healthcare:speciality:'') k)
              (filter (\<lambda>(k, v). prefix ''healthcare:speciality:'' k \<and> v = ''yes'') ts)
            @ healthcare_services ts
      in if collected = []
         then (if tag ts ''amenity'' = Some ''hospital'' then [''General Hospital Services'']
               else if tag ts ''amenity'' = Some ''clinic'' then [''General Clinic Services'']
               else if truthy (tag ts ''healthcare'')
                 then [capitalize (the (tag ts ''healthcare'')) @ '' Services'']
               else [''General Healthcare''])
         else collected)"

text \<open>
  The order \<open><=\<close> of two distances as the program's numbers have it: \<open>NaN\<close> is in no
  order with any number.  A list of distances is ascending when each is at most every
  later one.
\<close>

definition js_le :: "js_number \<Rightarrow> js_number \<Rightarrow> bool" where
  "js_le x y =
     (case x of
        NaN \<Rightarrow> False
      | Minus_Infinity \<Rightarrow> y \<noteq> NaN
      | Num a \<Rightarrow> (case y of Num b \<Rightarrow> a \<le> b | Infinity \<Rightarrow> True | _ \<Rightarrow> False)
      | Infinity \<Rightarrow> y = Infinity)"

definition ascending :: "js_number list \<Rightarrow> bool" where
  "ascending ds = sorted_wrt js_le ds"

text \<open>The status that goes with a body: 200 with results, 500 with an error.\<close>

definition status_of_body :: "'p body \<Rightarrow> nat" where
  "status_of_body b = (case b of Error_body s m \<Rightarrow> 500 | Results_body s l c rad n ps \<Rightarrow> 200)"

section \<open>Facility type: the priority order\<close>

text \<open>
  C3.  For every tag set the facility type computed by \<open>getFacilityType\<close> is the result of
  the priority-ordered first-match inspection of the rule table (amenity hospital, clinic,
  doctors; healthcare centre, clinic, any other non-empty value; social facility healthcare;
  else the generic type), and it is never the empty string.
\<close>

theorem getFacilityType_first_match:
  "getFacilityType ts = facilityType_spec ts \<and> getFacilityType ts \<noteq> []"
proof
  show "getFacilityType ts = facilityType_spec ts"
    by (cases "tag ts ''healthcare''")
      (simp_all add: getFacilityType_def facilityType_spec_def facilityType_rules_def
        other_healthcare_value_def tag_is_def truthy_def)
  show "getFacilityType ts \<noteq> []"
    by (simp add: getFacilityType_def)
qed

text \<open>The order decides: an amenity tag wins over a healthcare tag, whichever comes first.\<close>

lemma getFacilityType_priority:
  "getFacilityType [(''healthcare'', ''clinic''), (''amenity'', ''doctors'')] = ''Doctor's Office''"
  "getFacilityType [(''healthcare'', ''midwife''), (''social_facility'', ''healthcare'')]
     = ''Healthcare (midwife)''"
  "getFacilityType [(''healthcare'', [])] = ''Healthcare Facility''"
  by (simp_all add: getFacilityType_def tag_is_def tag_def truthy_def)

section \<open>Adjusted costs\<close>

lemma Math_round_round: "Math_round x = of_int (round x)"
  by (simp add: Math_round_def round_def)

lemma round_of_Ints: "x \<in> \<int> \<Longrightarrow> of_int (round x) = (x::real)"
  by (auto elim: Ints_cases)

lemma displayCostResults_rows:
  "set (displayCostResults providers c) = adjust_costs c ` set providers"
  by (simp add: displayCostResults_def)

text \<open>
  C1 (amended).  For the categories private, medicare and medicaid the three adjusted costs
  are the costs times the multiplier of the category (0.60, 0.45, 0.40), each rounded to the
  nearest integer.  For every other value of the category, \<open>none\<close> and any value outside
  the four included, the three costs are shown as stored, without rounding; for \<open>none\<close>
  that is the rounded product with the multiplier 1.0 whenever the stored costs are
  integers.
\<close>

theorem adjust_costs_rounded:
  "(c \<in> {''private'', ''medicare'', ''medicaid''} \<longrightarrow>
      multiplier c \<noteq> None
      \<and> adjustedCost (adjust_costs c p) = of_int (round (averageCost p * the (multiplier c)))
      \<and> adjustedMin (adjust_costs c p) = of_int (round (minCost p * the (multiplier c)))
      \<and> adjustedMax (adjust_costs c p) = of_int (round (maxCost p * the (multiplier c))))
   \<and> (c \<notin> {''private'', ''medicare'', ''medicaid''} \<longrightarrow>
      adjustedCost (adjust_costs c p) = averageCost p
      \<and> adjustedMin (adjust_costs c p) = minCost p
      \<and> adjustedMax (adjust_costs c p) = maxCost p)
   \<and> (c = ''none'' \<and> averageCost p \<in> \<int> \<and> minCost p \<in> \<int> \<and> maxCost p \<in> \<int> \<longrightarrow>
      adjustedCost (adjust_costs c p) = of_int (round (averageCost p * the (multiplier c)))
      \<and> adjustedMin (adjust_costs c p) = of_int (round (minCost p * the (multiplier c)))
      \<and> adjustedMax (adjust_costs c p) = of_int (round (maxCost p * the (multiplier c))))"
proof (intro conjI impI)
  assume "c \<in> {''private'', ''medicare'', ''medicaid''}"
  then consider "c = ''private''" | "c = ''medicare''" | "c = ''medicaid''" by auto
  then have "multiplier c \<noteq> None
      \<and> adjustedCost (adjust_costs c p) = of_int (round (averageCost p * the (multiplier c)))
      \<and> adjustedMin (adjust_costs c p) = of_int (round (minCost p * the (multiplier c)))
      \<and> adjustedMax (adjust_costs c p) = of_int (round (maxCost p * the (multiplier c)))"
    by cases (simp_all add: adjust_costs_def Let_def multiplier_def Math_round_round)
  then show "multiplier c \<noteq> None"
    "adjustedCost (adjust_costs c p) = of_int (round (averageCost p * the (multiplier c)))"
    "adjustedMin (adjust_costs c p) = of_int (round (minCost p * the (multiplier c)))"
    "adjustedMax (adjust_costs c p) = of_int (round (maxCost p * the (multiplier c)))"
    by simp_all
next
  assume "c \<notin> {''private'', ''medicare'', ''medicaid''}"
  then show "adjustedCost (adjust_costs c p) = averageCost p"
    "adjustedMin (adjust_costs c p) = minCost p"
    "adjustedMax (adjust_costs c p) = maxCost p"
    by (simp_all add: adjust_costs_def Let_def)
next
  assume "c = ''none'' \<and> averageCost p \<in> \<int> \<and> minCost p \<in> \<int> \<and> maxCost p \<in> \<int>"
  then show "adjustedCost (adjust_costs c p) = of_int (round (averageCost p * the (multiplier c)))"
    "adjustedMin (adjust_costs c p) = of_int (round (minCost p * the (multiplier c)))"
    "adjustedMax (adjust_costs c p) = of_int (round (maxCost p * the (multiplier c)))"
    by (simp_all add: adjust_costs_def Let_def multiplier_def round_of_Ints)
qed

text \<open>
  The theorem on a provider with the costs 1000, 810 and 1210: under medicare they become
  450, 365 and 545; under an unknown category and under \<open>none\<close> they stay.
\<close>

theorem adjust_costs_rounded_witness:
  "''medicare'' \<in> {''private'', ''medicare'', ''medicaid''}
   \<and> adjust_costs ''medicare'' \<lparr>facilityName = ''A'', averageCost = 1000, minCost = 810, maxCost = 1210\<rparr>
       = \<lparr>adjustedCost = 450, adjustedMin = 365, adjustedMax = 545, discount = ''55% Medicare Rate''\<rparr>
   \<and> ''gold'' \<notin> {''private'', ''medicare'', ''medicaid''}
   \<and> adjustedCost (adjust_costs ''gold''
        \<lparr>facilityName = ''A'', averageCost = 1000, minCost = 810, maxCost = 1210\<rparr>) = 1000
   \<and> (1000::real) \<in> \<int> \<and> (810::real) \<in> \<int> \<and> (1210::real) \<in> \<int>
   \<and> adjustedCost (adjust_costs ''none''
        \<lparr>facilityName = ''A'', averageCost = 1000, minCost = 810, maxCost = 1210\<rparr>)
       = of_int (round (1000 * 1 :: real))"
  using adjust_costs_rounded [of "''medicare''"
      "\<lparr>facilityName = ''A'', averageCost = 1000, minCost = 810, maxCost = 1210\<rparr>"]
    adjust_costs_rounded [of "''gold''"
      "\<lparr>facilityName = ''A'', averageCost = 1000, minCost = 810, maxCost = 1210\<rparr>"]
    adjust_costs_rounded [of "''none''"
      "\<lparr>facilityName = ''A'', averageCost = 1000, minCost = 810, maxCost = 1210\<rparr>"]
  by (simp add: adjust_costs_def Let_def Math_round_def multiplier_def)

text \<open>
  The claim as stated rounds under \<open>none\<close> too; a stored average cost of 100.5 is shown
  as 100.5, where the rounded product with the multiplier 1.0 is 101.
\<close>

theorem adjust_costs_none_counterexample:
  "multiplier ''none'' = Some 1
   \<and> adjustedCost (adjust_costs ''none''
        \<lparr>facilityName = ''A'', averageCost = 100.5, minCost = 80, maxCost = 120\<rparr>) = 100.5
   \<and> real_of_int (round (averageCost
        \<lparr>facilityName = ''A'', averageCost = 100.5, minCost = 80, maxCost = 120\<rparr>
          * the (multiplier ''none''))) = 101"
  by (simp add: multiplier_def adjust_costs_def Let_def round_def)

section \<open>Specialties\<close>

lemma replace_first_prefix: "prefix pat s \<Longrightarrow> replace_first pat rep s = rep @ drop (length pat) s"
  by (cases s) simp_all

lemma extractSpecialties_nonempty: "extractSpecialties ts \<noteq> []"
  by (simp add: extractSpecialties_def Let_def)

lemma extractSpecialties_spec_agree:
  assumes "\<forall>(k, v) \<in> set ts. prefix ''healthcare:speciality'' k \<and> v = ''yes''
             \<longrightarrow> prefix ''healthcare:speciality:'' k"
  shows "extractSpecialties ts = specialties_spec ts"
proof -
  have p: "prefix ''healthcare:speciality:'' k \<Longrightarrow> prefix ''healthcare:speciality'' k" for k :: string
    by (auto simp add: prefix_def)
  have f: "filter (\<lambda>(k, v). prefix ''healthcare:speciality'' k \<and> v = ''yes'') ts
      = filter (\<lambda>(k, v). prefix ''healthcare:speciality:'' k \<and> v = ''yes'') ts"
    using assms by (intro filter_cong) (auto dest: p)
  have "speciality_keys ts = map (\<lambda>(k, v). drop (length ''healthcare:speciality:'') k)
              (filter (\<lambda>(k, v). prefix ''healthcare:speciality:'' k \<and> v = ''yes'') ts)"
    unfolding speciality_keys_def f
    by (rule map_cong) (auto simp add: replace_first_prefix)
  then show ?thesis
    by (simp add: extractSpecialties_def specialties_spec_def Let_def tag_is_def)
qed

text \<open>
  C4.  The loop of \<open>extractSpecialties\<close> tests the prefix \<open>healthcare:speciality\<close> without
  the final colon, and strips the prefix with the colon.  On a tag set whose only key is
  \<open>healthcare:speciality\<close> with the value \<open>yes\<close> it returns that key as a specialty, where
  the specialties as specified are the default \<open>General Healthcare\<close>, no key having the
  prefix \<open>healthcare:speciality:\<close>.
\<close>

theorem extractSpecialties_bare_prefix:
  "extractSpecialties [(''healthcare:speciality'', ''yes'')] = [''healthcare:speciality'']
   \<and> specialties_spec [(''healthcare:speciality'', ''yes'')] = [''General Healthcare'']"
  by (simp add: extractSpecialties_def speciality_keys_def healthcare_services_def
      specialties_spec_def tag_is_def tag_def truthy_def)

section \<open>The sort by distance\<close>

lemma length_sort_by_distance: "length (sort_by_distance eng fs) = length fs"
  by (simp add: sort_by_distance_def)

lemma set_sort_by_distance: "set (sort_by_distance eng fs) = set fs"
proof (cases "list_all is_finite (map f_distance fs)")
  case False
  have "map snd (zip (map (sort_rank eng (map f_distance fs)) [0..<length fs]) fs) = fs"
    by (rule map_snd_zip) simp
  then have "snd ` set (zip (map (sort_rank eng (map f_distance fs)) [0..<length fs]) fs) = set fs"
    by (metis set_map)
  with False show ?thesis
    by (simp add: sort_by_distance_def)
next
  case True
  then show ?thesis
    by (simp add: sort_by_distance_def)
qed

lemma sort_by_distance_single: "sort_by_distance eng [f] = [f]"
  by (simp add: sort_by_distance_def)

section \<open>Elements without coordinates\<close>

lemma collect_nodes_skip:
  "el_type e \<noteq> node \<Longrightarrow> collect_nodes (xs @ e # ys) = collect_nodes (xs @ ys)"
  by (simp add: collect_nodes_def)

lemma unresolved_not_node: "resolve_coords nodes e = None \<Longrightarrow> el_type e \<noteq> node"
  by (cases e) simp_all

lemma process_element_None:
  "resolve_coords nodes e = None \<Longrightarrow> process_element eng nodes c e = None"
  by (simp add: process_element_def)

lemma process_element_Some_iff:
  "process_element eng nodes c e \<noteq> None \<longleftrightarrow> el_tags e \<noteq> None \<and> resolve_coords nodes e \<noteq> None"
  by (cases e) (auto simp add: process_element_def split: option.splits)

lemma map_filter_append:
  "List.map_filter f (xs @ ys) = List.map_filter f xs @ List.map_filter f ys"
  by (simp add: List.map_filter_def)

lemma pushed_facilities_skip:
  assumes "resolve_coords (collect_nodes (xs @ e # ys)) e = None"
  shows "pushed_facilities eng (xs @ e # ys) c = pushed_facilities eng (xs @ ys) c"
proof -
  have n: "el_type e \<noteq> node"
    using assms by (rule unresolved_not_node)
  then have t: "collect_nodes (xs @ e # ys) = collect_nodes (xs @ ys)"
    by (rule collect_nodes_skip)
  with assms have "process_element eng (collect_nodes (xs @ ys)) c e = None"
    by (simp add: process_element_None)
  then show ?thesis
    by (simp add: pushed_facilities_def t map_filter_append)
qed

lemma length_pushed_facilities:
  "length (pushed_facilities eng els c) =
     length (filter (\<lambda>e. el_tags e \<noteq> None \<and> resolve_coords (collect_nodes els) e \<noteq> None) els)"
  by (simp add: pushed_facilities_def List.map_filter_def process_element_Some_iff
      del: not_None_eq)

lemma length_filter_split:
  "length (filter (\<lambda>x. P x \<and> Q x) xs) + length (filter (\<lambda>x. P x \<and> \<not> Q x) xs) =
     length (filter P xs)"
  by (induction xs) simp_all

lemma pushed_facilities_way_resolves:
  assumes "resolve_coords (collect_nodes (xs @ Way i ns (Some ts) # ys)) (Way i ns (Some ts)) = None"
    and "resolve_coords (collect_nodes (xs @ Way i ns (Some ts) # ys)) (Way i ns' (Some ts)) \<noteq> None"
  shows "length (pushed_facilities eng (xs @ Way i ns' (Some ts) # ys) c) =
     Suc (length (pushed_facilities eng (xs @ Way i ns (Some ts) # ys) c))"
proof -
  have t: "collect_nodes (xs @ Way i ns (Some ts) # ys) = collect_nodes (xs @ ys)"
    "collect_nodes (xs @ Way i ns' (Some ts) # ys) = collect_nodes (xs @ ys)"
    by (simp_all add: collect_nodes_skip)
  from assms(1) have a: "process_element eng (collect_nodes (xs @ ys)) c (Way i ns (Some ts)) = None"
    by (simp add: t process_element_None)
  from assms(2) have "process_element eng (collect_nodes (xs @ ys)) c (Way i ns' (Some ts)) \<noteq> None"
    by (simp add: t process_element_Some_iff del: not_None_eq)
  then obtain f where b: "process_element eng (collect_nodes (xs @ ys)) c (Way i ns' (Some ts)) = Some f"
    by auto
  show ?thesis
    by (simp add: pushed_facilities_def t map_filter_append a b)
qed

text \<open>
  C5.  A tagged element whose coordinates do not resolve (a way whose node list is missing
  or empty or whose first node is not among the nodes of the batch, or a relation) is left
  out: the batch gives the same facilities as the batch without that element, so every
  other element is processed as before, and nothing is thrown.  The number of facilities is
  the number of tagged elements less the number of tagged elements that do not resolve;
  and where a tagged way does not resolve, the same batch with a node list for that way
  that does resolve gives exactly one facility more.
\<close>

theorem unresolvable_element_skipped:
  "(el_tags e \<noteq> None \<and> resolve_coords (collect_nodes (xs @ e # ys)) e = None \<longrightarrow>
      processOverpassResults eng (xs @ e # ys) c = processOverpassResults eng (xs @ ys) c)
   \<and> length (processOverpassResults eng els c)
       + length (filter (\<lambda>e. el_tags e \<noteq> None \<and> resolve_coords (collect_nodes els) e = None) els)
     = length (filter (\<lambda>e. el_tags e \<noteq> None) els)
   \<and> (resolve_coords (collect_nodes (xs @ Way i ns (Some ts) # ys)) (Way i ns (Some ts)) = None
      \<and> resolve_coords (collect_nodes (xs @ Way i ns (Some ts) # ys)) (Way i ns' (Some ts)) \<noteq> None \<longrightarrow>
      length (processOverpassResults eng (xs @ Way i ns' (Some ts) # ys) c) =
        Suc (length (processOverpassResults eng (xs @ Way i ns (Some ts) # ys) c)))"
proof (intro conjI impI)
  assume "el_tags e \<noteq> None \<and> resolve_coords (collect_nodes (xs @ e # ys)) e = None"
  then show "processOverpassResults eng (xs @ e # ys) c = processOverpassResults eng (xs @ ys) c"
    by (simp add: processOverpassResults_def pushed_facilities_skip)
next
  have "(\<lambda>e. el_tags e \<noteq> None \<and> resolve_coords (collect_nodes els) e = None)
      = (\<lambda>e. el_tags e \<noteq> None \<and> \<not> resolve_coords (collect_nodes els) e \<noteq> None)"
    by simp
  then show "length (processOverpassResults eng els c)
       + length (filter (\<lambda>e. el_tags e \<noteq> None \<and> resolve_coords (collect_nodes els) e = None) els)
     = length (filter (\<lambda>e. el_tags e \<noteq> None) els)"
    using length_filter_split [of "\<lambda>e. el_tags e \<noteq> None"
        "\<lambda>e. resolve_coords (collect_nodes els) e \<noteq> None" els]
    by (simp add: processOverpassResults_def length_sort_by_distance length_pushed_facilities)
next
  assume "resolve_coords (collect_nodes (xs @ Way i ns (Some ts) # ys)) (Way i ns (Some ts)) = None
      \<and> resolve_coords (collect_nodes (xs @ Way i ns (Some ts) # ys)) (Way i ns' (Some ts)) \<noteq> None"
  then show "length (processOverpassResults eng (xs @ Way i ns' (Some ts) # ys) c) =
        Suc (length (processOverpassResults eng (xs @ Way i ns (Some ts) # ys) c))"
    by (simp add: processOverpassResults_def length_sort_by_distance pushed_facilities_way_resolves)
qed

text \<open>
  The theorem on a batch of a hospital node, a clinic way that references the missing node 7
  and an untagged node 3, whatever the engine: the way is left out and one facility is
  found; were the way to reference node 3 there would be two.
\<close>

theorem unresolvable_element_skipped_witness:
  "\<forall>eng.
   el_tags (Way 2 (Some [7]) (Some [(''amenity'', ''clinic'')])) \<noteq> None
   \<and> resolve_coords
        (collect_nodes ([Node 1 13 80 (Some [(''amenity'', ''hospital'')])]
           @ Way 2 (Some [7]) (Some [(''amenity'', ''clinic'')]) # [Node 3 14 81 None]))
        (Way 2 (Some [7]) (Some [(''amenity'', ''clinic'')])) = None
   \<and> resolve_coords
        (collect_nodes ([Node 1 13 80 (Some [(''amenity'', ''hospital'')])]
           @ Way 2 (Some [7]) (Some [(''amenity'', ''clinic'')]) # [Node 3 14 81 None]))
        (Way 2 (Some [3]) (Some [(''amenity'', ''clinic'')])) \<noteq> None
   \<and> processOverpassResults eng
        ([Node 1 13 80 (Some [(''amenity'', ''hospital'')])]
           @ Way 2 (Some [7]) (Some [(''amenity'', ''clinic'')]) # [Node 3 14 81 None])
        \<lparr>lat = 13, lon = 80\<rparr>
     = processOverpassResults eng
        ([Node 1 13 80 (Some [(''amenity'', ''hospital'')])] @ [Node 3 14 81 None])
        \<lparr>lat = 13, lon = 80\<rparr>
   \<and> length (processOverpassResults eng
        ([Node 1 13 80 (Some [(''amenity'', ''hospital'')])]
           @ Way 2 (Some [7]) (Some [(''amenity'', ''clinic'')]) # [Node 3 14 81 None])
        \<lparr>lat = 13, lon = 80\<rparr>) = 1
   \<and> length (processOverpassResults eng
        ([Node 1 13 80 (Some [(''amenity'', ''hospital'')])]
           @ Way 2 (Some [3]) (Some [(''amenity'', ''clinic'')]) # [Node 3 14 81 None])
        \<lparr>lat = 13, lon = 80\<rparr>) = 2"
proof
  fix eng
  show "el_tags (Way 2 (Some [7]) (Some [(''amenity'', ''clinic'')])) \<noteq> None
   \<and> resolve_coords
        (collect_nodes ([Node 1 13 80 (Some [(''amenity'', ''hospital'')])]
           @ Way 2 (Some [7]) (Some [(''amenity'', ''clinic'')]) # [Node 3 14 81 None]))
        (Way 2 (Some [7]) (Some [(''amenity'', ''clinic'')])) = None
   \<and> resolve_coords
        (collect_nodes ([Node 1 13 80 (Some [(''amenity'', ''hospital'')])]
           @ Way 2 (Some [7]) (Some [(''amenity'', ''clinic'')]) # [Node 3 14 81 None]))
        (Way 2 (Some [3]) (Some [(''amenity'', ''clinic'')])) \<noteq> None
   \<and> processOverpassResults eng
        ([Node 1 13 80 (Some [(''amenity'', ''hospital'')])]
           @ Way 2 (Some [7]) (Some [(''amenity'', ''clinic'')]) # [Node 3 14 81 None])
        \<lparr>lat = 13, lon = 80\<rparr>
     = processOverpassResults eng
        ([Node 1 13 80 (Some [(''amenity'', ''hospital'')])] @ [Node 3 14 81 None])
        \<lparr>lat = 13, lon = 80\<rparr>
   \<and> length (processOverpassResults eng
        ([Node 1 13 80 (Some [(''amenity'', ''hospital'')])]
           @ Way 2 (Some [7]) (Some [(''amenity'', ''clinic'')]) # [Node 3 14 81 None])
        \<lparr>lat = 13, lon = 80\<rparr>) = 1
   \<and> length (processOverpassResults eng
        ([Node 1 13 80 (Some [(''amenity'', ''hospital'')])]
           @ Way 2 (Some [3]) (Some [(''amenity'', ''clinic'')]) # [Node 3 14 81 None])
        \<lparr>lat = 13, lon = 80\<rparr>) = 2"
    using unresolvable_element_skipped
      [of "Way 2 (Some [7]) (Some [(''amenity'', ''clinic'')])"
          "[Node 1 13 80 (Some [(''amenity'', ''hospital'')])]" "[Node 3 14 81 None]"
          eng "\<lparr>lat = 13, lon = 80\<rparr>"
          "[Node 1 13 80 (Some [(''amenity'', ''hospital'')]),
            Way 2 (Some [7]) (Some [(''amenity'', ''clinic'')]), Node 3 14 81 None]"
          2 "Some [7]" "[(''amenity'', ''clinic'')]" "Some [3]"]
    by (simp add: collect_nodes_def processOverpassResults_def length_sort_by_distance
        pushed_facilities_def process_element_def)
qed

section \<open>Order of the results\<close>

lemma sort_by_distance_numbers:
  "list_all is_finite (map f_distance fs) \<Longrightarrow>
     sorted (map (\<lambda>f. num_value (f_distance f)) (sort_by_distance eng fs))"
  by (simp add: sort_by_distance_def)

lemma js_le_num_value:
  "is_finite x \<Longrightarrow> is_finite y \<Longrightarrow> js_le x y \<longleftrightarrow> num_value x \<le> num_value y"
  by (cases x; cases y) (simp_all add: js_le_def num_value_def is_finite_def)

lemma ascending_numbers:
  assumes "list_all is_finite ds"
  shows "ascending ds \<longleftrightarrow> sorted (map num_value ds)"
proof -
  have e: "js_le x y \<longleftrightarrow> num_value x \<le> num_value y" if "x \<in> set ds" "y \<in> set ds" for x y
    using that assms by (intro js_le_num_value) (auto simp add: list_all_iff)
  have "sorted_wrt js_le ds \<longleftrightarrow> sorted_wrt (\<lambda>x y. num_value x \<le> num_value y) ds"
    by (auto elim!: sorted_wrt_mono_rel [rotated] simp add: e)
  then show ?thesis
    by (simp add: ascending_def sorted_map)
qed

lemma not_ascending_NaN:
  assumes "NaN \<in> set ds" and "2 \<le> length ds"
  shows "\<not> ascending ds"
proof
  assume a: "ascending ds"
  from assms(1) obtain i where i: "i < length ds" "ds ! i = NaN"
    by (auto simp add: in_set_conv_nth)
  from assms(2) i(1) obtain j where j: "j < length ds" "j \<noteq> i"
    by (cases "i = 0") (auto intro: that [of 1] that [of 0])
  show False
  proof (cases "i < j")
    case True
    with a j(1) have "js_le (ds ! i) (ds ! j)"
      by (simp add: ascending_def sorted_wrt_iff_nth_less)
    with i(2) show False by (simp add: js_le_def)
  next
    case False
    with j(2) have "j < i" by simp
    with a i(1) have "js_le (ds ! j) (ds ! i)"
      by (simp add: ascending_def sorted_wrt_iff_nth_less)
    with i(2) show False by (simp add: js_le_def split: js_number.splits)
  qed
qed

lemma processOverpassResults_ascending:
  assumes "list_all is_finite (map f_distance (pushed_facilities eng els c))"
  shows "ascending (map f_distance (processOverpassResults eng els c))"
proof -
  have n: "list_all is_finite (map f_distance (processOverpassResults eng els c))"
    using assms by (simp add: processOverpassResults_def list_all_iff set_sort_by_distance)
  have "sorted (map num_value (map f_distance (processOverpassResults eng els c)))"
    using sort_by_distance_numbers [OF assms]
    by (simp add: processOverpassResults_def comp_def)
  with n show ?thesis
    by (simp add: ascending_numbers)
qed

lemma processOverpassResults_not_ascending:
  assumes "NaN \<in> set (map f_distance (pushed_facilities eng els c))"
    and "2 \<le> length (pushed_facilities eng els c)"
  shows "\<not> ascending (map f_distance (processOverpassResults eng els c))"
  using assms
  by (intro not_ascending_NaN)
    (simp_all add: processOverpassResults_def set_sort_by_distance length_sort_by_distance)


section \<open>The payment filter of the live-map search\<close>

lemma payment_filter_iff:
  "payment_filter po f \<longleftrightarrow> (\<exists>opt\<in>set po. option_satisfied opt f)"
  by (auto simp add: payment_filter_def option_satisfied_def tag_is_def)

lemma unknown_not_sliding:
  "sliding_scale (extractPaymentInfo ts) = Unknown \<Longrightarrow> \<not> tag_is ts ''payment:sliding_scale'' ''yes''"
  by (auto simp add: extractPaymentInfo_def split: if_splits)

lemma providers_payment_filter:
  assumes "paymentOptions req = Some po" "po \<noteq> []"
  shows "providers_of (search_providers eng req geo ov) =
     filter (payment_filter po)
       (providers_of (search_providers eng (req\<lparr>paymentOptions := None\<rparr>) geo ov))"
  using assms
  by (auto simp add: search_providers_def providers_of_def Let_def split: sum.splits)

lemma api_facilities_search_ignores_payment:
  "api_facilities_search eng req geo ov =
     api_facilities_search eng (req\<lparr>paymentOptions := po\<rparr>) geo ov"
  by (auto simp add: api_facilities_search_def Let_def split: sum.splits)

text \<open>
  C7 (amended).  With a non-empty selection of payment options, the providers of
  \<open>/search-providers\<close> are those of the same search without the selection that satisfy at
  least one selected option, an option being satisfied only by the affirmative tag value
  (\<open>payment:sliding_scale\<close> is \<open>yes\<close> for Sliding Scale, \<open>fee\<close> is \<open>no\<close> for Free).  A
  facility whose sliding-scale status is Unknown is not among them, unless Free is selected
  and its \<open>fee\<close> tag is \<open>no\<close>.  \<open>/api/facilities/search\<close> does not read the selection:
  its answer is that of the same request without it.
\<close>

theorem payment_filter_or_semantics:
  assumes "paymentOptions req = Some po" and "po \<noteq> []"
  shows "providers_of (search_providers eng req geo ov) =
       filter (\<lambda>f. \<exists>opt\<in>set po. option_satisfied opt f)
         (providers_of (search_providers eng (req\<lparr>paymentOptions := None\<rparr>) geo ov))
     \<and> (\<forall>f. sliding_scale (extractPaymentInfo (f_tags f)) = Unknown
            \<and> \<not> (''Free'' \<in> set po \<and> tag (f_tags f) ''fee'' = Some ''no'')
            \<longrightarrow> f \<notin> set (providers_of (search_providers eng req geo ov)))
     \<and> api_facilities_search eng req geo ov =
         api_facilities_search eng (req\<lparr>paymentOptions := None\<rparr>) geo ov"
proof -
  have e: "providers_of (search_providers eng req geo ov) =
     filter (payment_filter po)
       (providers_of (search_providers eng (req\<lparr>paymentOptions := None\<rparr>) geo ov))"
    using assms by (rule providers_payment_filter)
  have "payment_filter po = (\<lambda>f. \<exists>opt\<in>set po. option_satisfied opt f)"
    by (rule ext) (rule payment_filter_iff)
  with e have 1: "providers_of (search_providers eng req geo ov) =
       filter (\<lambda>f. \<exists>opt\<in>set po. option_satisfied opt f)
         (providers_of (search_providers eng (req\<lparr>paymentOptions := None\<rparr>) geo ov))"
    by simp
  have 2: "f \<notin> set (providers_of (search_providers eng req geo ov))"
    if "sliding_scale (extractPaymentInfo (f_tags f)) = Unknown
          \<and> \<not> (''Free'' \<in> set po \<and> tag (f_tags f) ''fee'' = Some ''no'')" for f
  proof -
    from that have "\<not> payment_filter po f"
      by (auto simp add: payment_filter_def tag_is_def dest: unknown_not_sliding)
    then show ?thesis by (simp add: e)
  qed
  have 3: "api_facilities_search eng req geo ov =
         api_facilities_search eng (req\<lparr>paymentOptions := None\<rparr>) geo ov"
    by (rule api_facilities_search_ignores_payment)
  from 1 2 3 show ?thesis by blast
qed

lemma providers_search_providers_set:
  "set (providers_of (search_providers eng req (Resolved (m # ms)) (Resolved els))) =
     set (filter
       (\<lambda>f. (if truthy (careType req) then careType_filter eng (the (careType req)) f else True)
          \<and> (case paymentOptions req of None \<Rightarrow> True
              | Some po \<Rightarrow> if po = [] then True else payment_filter po f))
       (pushed_facilities eng els \<lparr>lat = m_lat m, lon = m_lon m\<rparr>))"
  by (auto simp add: search_providers_def providers_of_def geocodeAddress_def
      searchHealthcareFacilities_def processOverpassResults_def set_sort_by_distance
      coords.truncate_def Let_def split: option.splits)

lemma providers_api_facilities_search_set:
  "set (providers_of (api_facilities_search eng req (Resolved (m # ms)) (Resolved els))) =
     set (filter
       (\<lambda>f. if truthy (careType req) then careType_filter eng (the (careType req)) f else True)
       (pushed_facilities eng els \<lparr>lat = m_lat m, lon = m_lon m\<rparr>))"
  by (auto simp add: api_facilities_search_def providers_of_def geocodeAddress_def
      searchHealthcareFacilities_def processOverpassResults_def set_sort_by_distance
      coords.truncate_def Let_def)

text \<open>
  The theorem on a search with Sliding Scale selected over three clinics: one with the
  sliding-scale tag, one without payment tags, one free of charge.  Only the first is kept.
\<close>

theorem payment_filter_or_semantics_witness:
  "\<forall>eng.
   paymentOptions \<lparr>location = ''Chennai'', radius = None, careType = None, facilityType = None,
       paymentOptions = Some [''Sliding Scale'']\<rparr> = Some [''Sliding Scale'']
   \<and> [''Sliding Scale''] \<noteq> []
   \<and> f_id ` set (providers_of (search_providers eng
        \<lparr>location = ''Chennai'', radius = None, careType = None, facilityType = None,
           paymentOptions = Some [''Sliding Scale'']\<rparr>
        (Resolved [\<lparr>m_lat = 13, m_lon = 80, m_display_name = ''Chennai''\<rparr>])
        (Resolved [Node 1 13 80 (Some [(''amenity'', ''clinic''), (''payment:sliding_scale'', ''yes'')]),
                   Node 2 13 80 (Some [(''amenity'', ''clinic'')]),
                   Node 3 13 80 (Some [(''amenity'', ''clinic''), (''fee'', ''no'')])]))) = {1}"
proof
  fix eng
  have h1: "paymentOptions \<lparr>location = ''Chennai'', radius = None, careType = None,
       facilityType = None, paymentOptions = Some [''Sliding Scale'']\<rparr> = Some [''Sliding Scale'']"
    by simp
  have h2: "[''Sliding Scale''] \<noteq> []"
    by simp
  have g: "f_id ` set (providers_of (search_providers eng
        \<lparr>location = ''Chennai'', radius = None, careType = None, facilityType = None,
           paymentOptions = Some [''Sliding Scale'']\<rparr>
        (Resolved [\<lparr>m_lat = 13, m_lon = 80, m_display_name = ''Chennai''\<rparr>])
        (Resolved [Node 1 13 80 (Some [(''amenity'', ''clinic''), (''payment:sliding_scale'', ''yes'')]),
                   Node 2 13 80 (Some [(''amenity'', ''clinic'')]),
                   Node 3 13 80 (Some [(''amenity'', ''clinic''), (''fee'', ''no'')])]))) = {1}"
    by (simp add: providers_search_providers_set pushed_facilities_def process_element_def
        collect_nodes_def make_facility_def payment_filter_def option_satisfied_def
        tag_is_def tag_def truthy_def del: set_filter)
  show "paymentOptions \<lparr>location = ''Chennai'', radius = None, careType = None, facilityType = None,
       paymentOptions = Some [''Sliding Scale'']\<rparr> = Some [''Sliding Scale'']
   \<and> [''Sliding Scale''] \<noteq> []
   \<and> f_id ` set (providers_of (search_providers eng
        \<lparr>location = ''Chennai'', radius = None, careType = None, facilityType = None,
           paymentOptions = Some [''Sliding Scale'']\<rparr>
        (Resolved [\<lparr>m_lat = 13, m_lon = 80, m_display_name = ''Chennai''\<rparr>])
        (Resolved [Node 1 13 80 (Some [(''amenity'', ''clinic''), (''payment:sliding_scale'', ''yes'')]),
                   Node 2 13 80 (Some [(''amenity'', ''clinic'')]),
                   Node 3 13 80 (Some [(''amenity'', ''clinic''), (''fee'', ''no'')])]))) = {1}"
    using payment_filter_or_semantics [OF h1 h2, where eng = eng
        and geo = "Resolved [\<lparr>m_lat = 13, m_lon = 80, m_display_name = ''Chennai''\<rparr>]"
        and ov = "Resolved [Node 1 13 80 (Some [(''amenity'', ''clinic''), (''payment:sliding_scale'', ''yes'')]),
                     Node 2 13 80 (Some [(''amenity'', ''clinic'')]),
                     Node 3 13 80 (Some [(''amenity'', ''clinic''), (''fee'', ''no'')])]"]
      h1 h2 g
    by blast
qed

text \<open>
  The claim as stated fails twice on the same three clinics.  \<open>/api/facilities/search\<close>
  with Sliding Scale selected returns all three, two of which satisfy no selected option;
  and \<open>/search-providers\<close> with Sliding Scale and Free selected keeps the third clinic,
  whose sliding-scale status is Unknown.
\<close>

theorem payment_filter_counterexample:
  "\<forall>eng.
   f_id ` set (providers_of (api_facilities_search eng
        \<lparr>location = ''Chennai'', radius = None, careType = None, facilityType = None,
           paymentOptions = Some [''Sliding Scale'']\<rparr>
        (Resolved [\<lparr>m_lat = 13, m_lon = 80, m_display_name = ''Chennai''\<rparr>])
        (Resolved [Node 1 13 80 (Some [(''amenity'', ''clinic''), (''payment:sliding_scale'', ''yes'')]),
                   Node 2 13 80 (Some [(''amenity'', ''clinic'')]),
                   Node 3 13 80 (Some [(''amenity'', ''clinic''), (''fee'', ''no'')])]))) = {1, 2, 3}
   \<and> sliding_scale (extractPaymentInfo [(''amenity'', ''clinic''), (''fee'', ''no'')]) = Unknown
   \<and> f_id ` set (providers_of (search_providers eng
        \<lparr>location = ''Chennai'', radius = None, careType = None, facilityType = None,
           paymentOptions = Some [''Sliding Scale'', ''Free'']\<rparr>
        (Resolved [\<lparr>m_lat = 13, m_lon = 80, m_display_name = ''Chennai''\<rparr>])
        (Resolved [Node 1 13 80 (Some [(''amenity'', ''clinic''), (''payment:sliding_scale'', ''yes'')]),
                   Node 2 13 80 (Some [(''amenity'', ''clinic'')]),
                   Node 3 13 80 (Some [(''amenity'', ''clinic''), (''fee'', ''no'')])]))) = {1, 3}"
  by (simp add: providers_search_providers_set providers_api_facilities_search_set
      pushed_facilities_def process_element_def collect_nodes_def make_facility_def
      payment_filter_def extractPaymentInfo_def tag_is_def tag_def truthy_def insert_commute
      del: set_filter)

section \<open>The geocoder finds nothing\<close>

lemma status_search_providers:
  "status (search_providers eng req geo ov) = status_of_body (body (search_providers eng req geo ov))"
  by (simp add: search_providers_def status_of_body_def Let_def split: sum.splits)

lemma status_api_facilities_search:
  "status (api_facilities_search eng req geo ov) =
     status_of_body (body (api_facilities_search eng req geo ov))"
  by (simp add: api_facilities_search_def status_of_body_def Let_def split: sum.splits)

lemma status_searchFacilities_body:
  "status (searchFacilities_body binding req user geo store) =
     status_of_body (body (searchFacilities_body binding req user geo store))"
  by (simp add: searchFacilities_body_def status_of_body_def Let_def
      split: sum.splits fetched.splits option.splits)

lemma searchFacilities_not_a_function:
  "searchFacilities req user geo store =
     \<lparr>status = 500, body = Error_body (Some False) ''geocodeAddress is not a function''\<rparr>"
  by (simp add: searchFacilities_def searchFacilities_body_def
      routes_facilities_geocodeAddress_def call_geocodeAddress_def or_else_def)

text \<open>
  C8 (amended).  When the geocoder finds no match, \<open>geocodeAddress\<close> throws
  \<open>Location not found\<close>, and \<open>/search-providers\<close> and \<open>/api/facilities/search\<close> answer
  with the status 500 and the body \<open>{error: 'Location not found'}\<close>, without a
  \<open>success\<close> field; \<open>searchFacilities\<close> answers with the status 500 and a body
  \<open>{success: false, error: message}\<close>.  No search endpoint ever answers 400: the status
  is 200 with results and 500 with an error, whatever the request and the environment
  (for \<open>searchFacilities\<close> also whatever its \<open>geocodeAddress\<close> is bound to).
\<close>

theorem location_not_found_status:
  "geocodeAddress (Resolved []) = Inl ''Location not found''
   \<and> search_providers eng req (Resolved []) ov
       = \<lparr>status = 500, body = Error_body None ''Location not found''\<rparr>
   \<and> api_facilities_search eng req (Resolved []) ov
       = \<lparr>status = 500, body = Error_body None ''Location not found''\<rparr>
   \<and> (\<exists>msg. searchFacilities req user geo store
          = \<lparr>status = 500, body = Error_body (Some False) msg\<rparr>)
   \<and> status (search_providers eng req geo ov)
       = status_of_body (body (search_providers eng req geo ov))
   \<and> status (api_facilities_search eng req geo ov)
       = status_of_body (body (api_facilities_search eng req geo ov))
   \<and> status (searchFacilities req user geo store)
       = status_of_body (body (searchFacilities req user geo store))
   \<and> status (searchFacilities_body binding req user geo store)
       = status_of_body (body (searchFacilities_body binding req user geo store))"
proof (intro conjI)
  show "geocodeAddress (Resolved []) = Inl ''Location not found''"
    by (simp add: geocodeAddress_def)
  show "search_providers eng req (Resolved []) ov
       = \<lparr>status = 500, body = Error_body None ''Location not found''\<rparr>"
    by (simp add: geocodeAddress_def search_providers_def or_else_def)
  show "api_facilities_search eng req (Resolved []) ov
       = \<lparr>status = 500, body = Error_body None ''Location not found''\<rparr>"
    by (simp add: geocodeAddress_def api_facilities_search_def or_else_def)
  show "\<exists>msg. searchFacilities req user geo store
          = \<lparr>status = 500, body = Error_body (Some False) msg\<rparr>"
    by (rule exI) (rule searchFacilities_not_a_function)
  show "status (search_providers eng req geo ov)
       = status_of_body (body (search_providers eng req geo ov))"
    by (rule status_search_providers)
  show "status (api_facilities_search eng req geo ov)
       = status_of_body (body (api_facilities_search eng req geo ov))"
    by (rule status_api_facilities_search)
  show "status (searchFacilities req user geo store)
       = status_of_body (body (searchFacilities req user geo store))"
    by (simp add: searchFacilities_def status_searchFacilities_body)
  show "status (searchFacilities_body binding req user geo store)
       = status_of_body (body (searchFacilities_body binding req user geo store))"
    by (rule status_searchFacilities_body)
qed

text \<open>
  The claim as stated asks for the status 400 and the envelope with \<open>success: false\<close>;
  \<open>/search-providers\<close> answers a location that is not found with 500 and no such field.
\<close>

theorem location_not_found_counterexample:
  "\<forall>eng. geocodeAddress (Resolved []) = Inl ''Location not found''
   \<and> search_providers eng
        \<lparr>location = ''Atlantis'', radius = None, careType = None, facilityType = None,
           paymentOptions = None\<rparr>
        (Resolved []) (Resolved [])
      = \<lparr>status = 500, body = Error_body None ''Location not found''\<rparr>"
  by (simp add: geocodeAddress_def search_providers_def or_else_def)

section \<open>Contact fields\<close>

lemma process_element_contact:
  "process_element eng nodes c e = Some f \<Longrightarrow>
     f_phone f = or_else (tag (f_tags f) ''phone'')
                   (or_else (tag (f_tags f) ''contact:phone'') ''Not available'')
     \<and> f_website f = or_else (tag (f_tags f) ''website'')
                   (or_else (tag (f_tags f) ''contact:website'') [])"
  by (auto simp add: process_element_def make_facility_def split: if_splits option.splits)

lemma processOverpassResults_contact:
  assumes "f \<in> set (processOverpassResults eng els c)"
  shows "f_phone f = or_else (tag (f_tags f) ''phone'')
                   (or_else (tag (f_tags f) ''contact:phone'') ''Not available'')
     \<and> f_website f = or_else (tag (f_tags f) ''website'')
                   (or_else (tag (f_tags f) ''contact:website'') [])"
proof -
  from assms obtain e where "process_element eng (collect_nodes els) c e = Some f"
    by (auto simp add: processOverpassResults_def set_sort_by_distance pushed_facilities_def
        List.map_filter_def)
  then show ?thesis by (rule process_element_contact)
qed

text \<open>
  C9 (amended).  For every facility of a processed batch, the phone is \<open>Not available\<close>
  when the tags \<open>phone\<close> and \<open>contact:phone\<close> are absent, and the website is the empty
  string when the tags \<open>website\<close> and \<open>contact:website\<close> are absent.
\<close>

theorem contact_sentinels:
  "\<forall>f \<in> set (processOverpassResults eng els c).
     (tag (f_tags f) ''phone'' = None \<and> tag (f_tags f) ''contact:phone'' = None
        \<longrightarrow> f_phone f = ''Not available'')
     \<and> (tag (f_tags f) ''website'' = None \<and> tag (f_tags f) ''contact:website'' = None
        \<longrightarrow> f_website f = [])"
proof
  fix f
  assume "f \<in> set (processOverpassResults eng els c)"
  then have "f_phone f = or_else (tag (f_tags f) ''phone'')
                   (or_else (tag (f_tags f) ''contact:phone'') ''Not available'')
     \<and> f_website f = or_else (tag (f_tags f) ''website'')
                   (or_else (tag (f_tags f) ''contact:website'') [])"
    by (rule processOverpassResults_contact)
  then show "(tag (f_tags f) ''phone'' = None \<and> tag (f_tags f) ''contact:phone'' = None
        \<longrightarrow> f_phone f = ''Not available'')
     \<and> (tag (f_tags f) ''website'' = None \<and> tag (f_tags f) ''contact:website'' = None
        \<longrightarrow> f_website f = [])"
    by (simp add: or_else_def)
qed

text \<open>
  The theorem on a clinic node that has neither phone nor website tags, whatever the
  engine.
\<close>

theorem contact_sentinels_witness:
  "\<forall>eng. map (\<lambda>f. (tag (f_tags f) ''phone'', tag (f_tags f) ''contact:phone'', f_phone f,
             tag (f_tags f) ''website'', tag (f_tags f) ''contact:website'', f_website f))
     (processOverpassResults eng [Node 1 13 80 (Some [(''amenity'', ''clinic'')])]
        \<lparr>lat = 13, lon = 80\<rparr>)
   = [(None, None, ''Not available'', None, None, [])]"
proof
  fix eng
  show "map (\<lambda>f. (tag (f_tags f) ''phone'', tag (f_tags f) ''contact:phone'', f_phone f,
             tag (f_tags f) ''website'', tag (f_tags f) ''contact:website'', f_website f))
     (processOverpassResults eng [Node 1 13 80 (Some [(''amenity'', ''clinic'')])]
        \<lparr>lat = 13, lon = 80\<rparr>)
   = [(None, None, ''Not available'', None, None, [])]"
    using contact_sentinels [of eng "[Node 1 13 80 (Some [(''amenity'', ''clinic'')])]"
        "\<lparr>lat = 13, lon = 80\<rparr>"]
    by (simp add: processOverpassResults_def sort_by_distance_single pushed_facilities_def
        process_element_def make_facility_def tag_def)
qed

text \<open>
  The claim as stated gives the website the sentinel of the phone; the website of a
  facility without website tags is the empty string.
\<close>

theorem website_sentinel_counterexample:
  "\<forall>eng. tag [(''amenity'', ''clinic'')] ''website'' = None
   \<and> tag [(''amenity'', ''clinic'')] ''contact:website'' = None
   \<and> map f_website (processOverpassResults eng [Node 1 13 80 (Some [(''amenity'', ''clinic'')])]
        \<lparr>lat = 13, lon = 80\<rparr>) = [[]]
   \<and> map f_phone (processOverpassResults eng [Node 1 13 80 (Some [(''amenity'', ''clinic'')])]
        \<lparr>lat = 13, lon = 80\<rparr>) = [''Not available'']"
  by (simp add: processOverpassResults_def sort_by_distance_single pushed_facilities_def
      process_element_def make_facility_def or_else_def tag_def)

section \<open>The stored-facility search\<close>

lemma length_map_throwing:
  "map_throwing f xs = Inr ys \<Longrightarrow> length ys = length xs"
  by (induction xs arbitrary: ys) (auto split: sum.splits)


lemma searchFacilities_body_success:
  assumes "binding = Some g" and "g geo = Inr cs"
    and "store (build_query req cs) = Resolved found"
    and "user = None \<or> user = Some (Resolved ())"
    and "map_throwing toPublicJSON (take 50 found) = Inr ps"
  shows "providers_of (searchFacilities_body binding req user geo store) = ps
    \<and> length ps = min 50 (length found)
    \<and> total_of (searchFacilities_body binding req user geo store) = min 50 (length found)"
  using assms length_map_throwing [OF assms(5)]
  by (auto simp add: searchFacilities_body_def call_geocodeAddress_def providers_of_def
      total_of_def Let_def)


end
